theory Spec2Isabelle
  imports Complex_Main "HOL-Library.Multiset" "HOL-Library.AList"
begin

section \<open>Numbers\<close>

text \<open>
  A JavaScript \<^verbatim>\<open>number\<close> is modelled as an exact real: rounding and overflow of
  IEEE doubles are outside the model, and so is the sign of zero. The only non-finite
  values the engine can then produce come from a division by zero; they are kept
  apart from the finite results instead of being folded into a real.
\<close>

datatype jsnum = Num real | PosInf | NegInf | NaN

definition js_div :: "real \<Rightarrow> real \<Rightarrow> jsnum" where
  "js_div a b =
     (if b \<noteq> 0 then Num (a / b)
      else if 0 < a then PosInf
      else if a < 0 then NegInf
      else NaN)"

fun js_times :: "jsnum \<Rightarrow> real \<Rightarrow> jsnum" where
  "js_times (Num a) c = Num (a * c)"
| "js_times PosInf c = (if 0 < c then PosInf else if c < 0 then NegInf else NaN)"
| "js_times NegInf c = (if 0 < c then NegInf else if c < 0 then PosInf else NaN)"
| "js_times NaN c = NaN"

fun js_gt :: "jsnum \<Rightarrow> real \<Rightarrow> bool" where
  "js_gt (Num a) c = (c < a)"
| "js_gt PosInf c = True"
| "js_gt NegInf c = False"
| "js_gt NaN c = False"

fun js_sub :: "jsnum \<Rightarrow> jsnum \<Rightarrow> jsnum" where
  "js_sub (Num a) (Num b) = Num (a - b)"
| "js_sub NaN y = NaN"
| "js_sub x NaN = NaN"
| "js_sub PosInf PosInf = NaN"
| "js_sub NegInf NegInf = NaN"
| "js_sub PosInf y = PosInf"
| "js_sub NegInf y = NegInf"
| "js_sub x PosInf = NegInf"
| "js_sub x NegInf = PosInf"

section \<open>The unified price engine\<close>

subsection \<open>Data\<close>

record priced =
  price :: real
  confidence :: real

record PriceSource = priced +
  source :: string
  timestamp :: real
  latency :: real

datatype error =
    NoPriceData string string
  | NoPriceSources
  | InvalidSourceData
  | RedisNotConnected
  | RedisCommandFailed

subsection \<open>calculateWeightedAverage\<close>

text \<open>
  \<^verbatim>\<open>Date.now()\<close> is read once in the function; the reading is the parameter \<open>now\<close>
  (milliseconds). The age weight is the expression both reducers compute.
\<close>

definition ageWeight :: "real \<Rightarrow> PriceSource \<Rightarrow> real" where
  "ageWeight now s = max 0 (1 - (now - timestamp s) / 300000)"

definition calculateWeightedAverage :: "real \<Rightarrow> PriceSource list \<Rightarrow> error + priced" where
  "calculateWeightedAverage now srcs =
     (if length srcs = 0 then Inl NoPriceSources
      else if length srcs = 1 then
        (case srcs of
           s # _ \<Rightarrow> Inr \<lparr>price = price s, confidence = confidence s\<rparr>
         | [] \<Rightarrow> Inl InvalidSourceData)
      else
        let totalWeight = foldl (\<lambda>sum s. sum + confidence s * ageWeight now s) 0 srcs
        in if totalWeight = 0 then
             Inr \<lparr>price = foldl (\<lambda>sum s. sum + price s) 0 srcs / real (length srcs),
                  confidence = foldl (\<lambda>sum s. sum + confidence s) 0 srcs / real (length srcs)\<rparr>
           else
             Inr \<lparr>price = foldl (\<lambda>sum s. sum + price s * (confidence s * ageWeight now s / totalWeight)) 0 srcs,
                  confidence = foldl (\<lambda>sum s. sum + confidence s) 0 srcs / real (length srcs)\<rparr>)"

subsection \<open>calculateDeviation\<close>

text \<open>
  The variance is a mean of squares and never negative, so \<^verbatim>\<open>Math.sqrt\<close> is the real
  square root here. The last division is by the average price, which can be 0.
\<close>

definition calculateDeviation :: "PriceSource list \<Rightarrow> jsnum" where
  "calculateDeviation srcs =
     (if length srcs \<le> 1 then Num 0
      else
        let prices = map price srcs;
            avgPrice = foldl (\<lambda>sum p. sum + p) 0 prices / real (length prices);
            variance = foldl (\<lambda>sum p. sum + (p - avgPrice) ^ 2) 0 prices / real (length prices);
            standardDeviation = sqrt variance
        in js_times (js_div standardDeviation avgPrice) 100)"

subsection \<open>detectArbitrage\<close>

record ArbitrageOpportunity =
  buy_source :: string
  sell_source :: string
  spread_percentage :: jsnum
  profit_potential :: real
  opp_confidence :: real

text \<open>
  \<^verbatim>\<open>Array.prototype.sort\<close> with a comparator: the sort is stable, and for a consistent
  comparator its result is the one a stable insertion sort gives. An element moves behind
  another only when the comparator's value for the pair is greater than 0 (a \<^verbatim>\<open>NaN\<close>
  counts as 0).
\<close>

fun place_by :: "('a \<Rightarrow> 'a \<Rightarrow> jsnum) \<Rightarrow> 'a \<Rightarrow> 'a list \<Rightarrow> 'a list" where
  "place_by cmp a [] = [a]"
| "place_by cmp a (b # bs) = (if js_gt (cmp a b) 0 then b # place_by cmp a bs else a # b # bs)"

definition js_sort :: "('a \<Rightarrow> 'a \<Rightarrow> jsnum) \<Rightarrow> 'a list \<Rightarrow> 'a list" where
  "js_sort cmp xs = foldr (place_by cmp) xs []"

text \<open>
  The body of the inner loop for one pair of sources. The guard
  \<^verbatim>\<open>if (!sourceI || !sourceJ) continue\<close> never fires: both indices are in range and
  every element is an object.
\<close>

definition arbitrage_step ::
  "PriceSource \<Rightarrow> PriceSource \<Rightarrow> ArbitrageOpportunity list \<Rightarrow> ArbitrageOpportunity list" where
  "arbitrage_step sourceI sourceJ opportunities =
     (let priceDiff = \<bar>price sourceI - price sourceJ\<bar>;
          avgPrice = (price sourceI + price sourceJ) / 2;
          spreadPercentage = js_times (js_div priceDiff avgPrice) 100
      in if js_gt spreadPercentage (1/10) then
           opportunities @
             [\<lparr>buy_source = (if price sourceI < price sourceJ then source sourceI else source sourceJ),
               sell_source = (if price sourceI < price sourceJ then source sourceJ else source sourceI),
               spread_percentage = spreadPercentage,
               profit_potential = priceDiff,
               opp_confidence = min (confidence sourceI) (confidence sourceJ)\<rparr>]
         else opportunities)"

function detectArbitrage_inner ::
  "PriceSource list \<Rightarrow> nat \<Rightarrow> nat \<Rightarrow> ArbitrageOpportunity list \<Rightarrow> ArbitrageOpportunity list" where
  "detectArbitrage_inner srcs i j opportunities =
     (if j < length srcs
      then detectArbitrage_inner srcs i (j + 1) (arbitrage_step (srcs ! i) (srcs ! j) opportunities)
      else opportunities)"
  by pat_completeness auto
termination
  by (relation "measure (\<lambda>(srcs, i, j, opportunities). length srcs - j)") auto

function detectArbitrage_outer ::
  "PriceSource list \<Rightarrow> nat \<Rightarrow> ArbitrageOpportunity list \<Rightarrow> ArbitrageOpportunity list" where
  "detectArbitrage_outer srcs i opportunities =
     (if i < length srcs
      then detectArbitrage_outer srcs (i + 1) (detectArbitrage_inner srcs i (i + 1) opportunities)
      else opportunities)"
  by pat_completeness auto
termination
  by (relation "measure (\<lambda>(srcs, i, opportunities). length srcs - i)") auto

declare detectArbitrage_inner.simps [simp del] detectArbitrage_outer.simps [simp del]

definition detectArbitrage :: "PriceSource list \<Rightarrow> ArbitrageOpportunity list" where
  "detectArbitrage srcs =
     js_sort (\<lambda>a b. js_sub (spread_percentage b) (spread_percentage a))
       (detectArbitrage_outer srcs 0 [])"

subsection \<open>getUnifiedPrice\<close>

text \<open>
  What the engine reads of the two adapters' results: the fields of \<^verbatim>\<open>PriceData\<close> and
  \<^verbatim>\<open>PythPriceData\<close> it copies into a \<^verbatim>\<open>PriceSource\<close>. A settled promise is rejected
  or fulfilled, with \<^verbatim>\<open>null\<close> as \<open>None\<close>.

  The surroundings of one request are a \<open>world\<close>: the clock reading (one reading stands
  for every \<^verbatim>\<open>Date.now()\<close> of the request), the configured time-to-live in seconds
  (\<^verbatim>\<open>CACHE_TTL_PRICE\<close>, 30 by default), whether the Redis commands \<^verbatim>\<open>get\<close> and
  \<^verbatim>\<open>setex\<close> reject, and what the two adapters settle to. The engine's own state is the
  Redis client (\<^verbatim>\<open>null\<close> until connected, else the stored entries: the JSON text of
  a value is identified with the value) and the log. Only the engine's own keys are
  kept in the store; the entries the adapters cache for themselves are theirs.
  \<^verbatim>\<open>JSON.stringify\<close> writes a number that is not finite as \<^verbatim>\<open>null\<close>: for a stored
  result whose deviation or spread is not finite, what a later cache hit reads back
  differs from the stored record in those fields, and the model does not follow that.
\<close>

record PriceData =
  pd_price :: real
  pd_confidence :: real
  pd_timestamp :: real

record PythPriceData =
  pyth_price :: real
  pyth_confidence :: real
  pyth_timestamp :: real
  pyth_publishTime :: real

record Metadata =
  last_updated :: real
  data_freshness :: string
  api_version :: string

record UnifiedPriceData =
  symbol :: string
  chain :: string
  unified_price :: real
  unified_confidence :: real
  unified_timestamp :: real
  sources :: "string list"
  source_count :: nat
  price_deviation :: jsnum
  arbitrage_opportunities :: "ArbitrageOpportunity list"
  metadata :: Metadata

datatype 'a settled = Rejected | Fulfilled "'a option"

datatype log_entry = LogDebug string | LogError string error

record CacheEntry =
  cached_value :: UnifiedPriceData
  expires_in :: "nat option"

record world =
  clock :: real
  ttl_price :: nat
  get_rejects :: bool
  set_rejects :: bool
  chainlink :: "string \<Rightarrow> string \<Rightarrow> PriceData settled"
  pyth :: "string \<Rightarrow> PythPriceData settled"

record engine =
  client :: "(string \<rightharpoonup> CacheEntry) option"
  logged :: "log_entry list"

text \<open>
  \<^verbatim>\<open>RedisConnection.get\<close> and \<^verbatim>\<open>RedisConnection.set\<close>: \<^verbatim>\<open>getClient()\<close> throws when the
  client is \<^verbatim>\<open>null\<close>; a time-to-live of 0 stores without expiry.
\<close>

definition redis_get :: "world \<Rightarrow> engine \<Rightarrow> string \<Rightarrow> error + UnifiedPriceData option" where
  "redis_get w e key =
     (case client e of
        None \<Rightarrow> Inl RedisNotConnected
      | Some store \<Rightarrow>
          if get_rejects w then Inl RedisCommandFailed
          else Inr (map_option cached_value (store key)))"

definition redis_set :: "world \<Rightarrow> engine \<Rightarrow> string \<Rightarrow> UnifiedPriceData \<Rightarrow> nat \<Rightarrow> error + engine" where
  "redis_set w e key v ttl =
     (case client e of
        None \<Rightarrow> Inl RedisNotConnected
      | Some store \<Rightarrow>
          if set_rejects w then Inl RedisCommandFailed
          else Inr (e\<lparr>client := Some (store(key \<mapsto>
                 \<lparr>cached_value = v, expires_in = (if ttl \<noteq> 0 then Some ttl else None)\<rparr>))\<rparr>))"

text \<open>The decimal text of a template literal \<^verbatim>\<open>${n}\<close> for an integer.\<close>

fun show_nat :: "nat \<Rightarrow> string" where
  "show_nat n = (if n < 10 then [char_of (48 + n)] else show_nat (n div 10) @ [char_of (48 + n mod 10)])"

declare show_nat.simps [simp del]

definition show_int :: "int \<Rightarrow> string" where
  "show_int i = (if i < 0 then CHR ''-'' # show_nat (nat (- i)) else show_nat (nat i))"

definition calculateFreshness :: "real \<Rightarrow> PriceSource list \<Rightarrow> string" where
  "calculateFreshness now srcs =
     (if length srcs = 0 then ''unknown''
      else
        let mostRecentTimestamp = Max (set (map timestamp srcs));
            ageSeconds = \<lfloor>(now - mostRecentTimestamp) / 1000\<rfloor>
        in if ageSeconds < 60 then show_int ageSeconds @ ''s''
           else if ageSeconds < 3600 then show_int (ageSeconds div 60) @ ''m''
           else show_int (ageSeconds div 3600) @ ''h'')"

text \<open>The \<^verbatim>\<open>catch\<close> block: the error is logged and thrown again.\<close>

definition log_failure :: "string \<Rightarrow> string \<Rightarrow> error \<Rightarrow> engine \<Rightarrow> engine" where
  "log_failure symb chn err e =
     e\<lparr>logged := logged e @
        [LogError (''Failed to get unified price for '' @ symb @ '' on '' @ chn @ '':'') err]\<rparr>"

text \<open>The settled results of the two adapters, turned into the list \<^verbatim>\<open>sources\<close>.\<close>

definition gather :: "world \<Rightarrow> string \<Rightarrow> string \<Rightarrow> PriceSource list" where
  "gather w symb chn =
     (let chainlinkPrice = chainlink w chn (symb @ ''/USD'');
          pythPrice = pyth w (symb @ ''/USD'')
      in (case chainlinkPrice of
            Fulfilled (Some v) \<Rightarrow>
              [\<lparr>price = pd_price v, confidence = pd_confidence v, source = ''chainlink'',
                timestamp = pd_timestamp v, latency = clock w - pd_timestamp v\<rparr>]
          | _ \<Rightarrow> [])
         @
         (case pythPrice of
            Fulfilled (Some v) \<Rightarrow>
              [\<lparr>price = pyth_price v, confidence = pyth_confidence v, source = ''pyth'',
                timestamp = pyth_timestamp v, latency = clock w - pyth_publishTime v\<rparr>]
          | _ \<Rightarrow> []))"

definition unifiedData ::
  "world \<Rightarrow> string \<Rightarrow> string \<Rightarrow> PriceSource list \<Rightarrow> priced \<Rightarrow> UnifiedPriceData" where
  "unifiedData w symb chn srcs weightedPrice =
     \<lparr>symbol = symb,
      chain = chn,
      unified_price = price weightedPrice,
      unified_confidence = confidence weightedPrice,
      unified_timestamp = clock w,
      sources = map source srcs,
      source_count = length srcs,
      price_deviation = calculateDeviation srcs,
      arbitrage_opportunities = detectArbitrage srcs,
      metadata =
        \<lparr>last_updated = clock w,
         data_freshness = calculateFreshness (clock w) srcs,
         api_version = ''1.0''\<rparr>\<rparr>"

definition getUnifiedPrice ::
  "world \<Rightarrow> string \<Rightarrow> string \<Rightarrow> engine \<Rightarrow> (error + UnifiedPriceData) \<times> engine" where
  "getUnifiedPrice w symb chn e =
     (let cacheKey = ''unified:'' @ chn @ '':'' @ symb in
      case redis_get w e cacheKey of
        Inl err \<Rightarrow> (Inl err, log_failure symb chn err e)
      | Inr (Some cached) \<Rightarrow>
          (Inr cached, e\<lparr>logged := logged e @ [LogDebug (''Cache hit for '' @ chn @ '':'' @ symb)]\<rparr>)
      | Inr None \<Rightarrow>
          let srcs = gather w symb chn in
          if length srcs = 0 then
            (Inl (NoPriceData symb chn), log_failure symb chn (NoPriceData symb chn) e)
          else
            case calculateWeightedAverage (clock w) srcs of
              Inl err \<Rightarrow> (Inl err, log_failure symb chn err e)
            | Inr weightedPrice \<Rightarrow>
                case redis_set w e cacheKey (unifiedData w symb chn srcs weightedPrice) (ttl_price w) of
                  Inl err \<Rightarrow> (Inl err, log_failure symb chn err e)
                | Inr e' \<Rightarrow>
                    (Inr (unifiedData w symb chn srcs weightedPrice),
                     e'\<lparr>logged := logged e' @
                        [LogDebug (''Unified price calculated for '' @ chn @ '':'' @ symb)]\<rparr>))"

section \<open>The WebSocket manager\<close>

text \<open>
  A connection is identified by a number. The manager's state is the map
  \<^verbatim>\<open>subscriptions\<close> from connections to their sets of subscription keys, in insertion
  order as a JavaScript \<^verbatim>\<open>Map\<close> keeps it, the ready state of each socket, the messages
  handed to \<^verbatim>\<open>ws.send\<close> so far, the log, and the price engine. A handler runs without
  interruption up to an \<^verbatim>\<open>await\<close>; the one handler that waits, for the price engine on a
  subscribe request, is given in two parts with the rest of the process in between.
  A payload is one of the shapes the manager builds or reads; \<open>payload_symbol\<close>
  and \<open>payload_chain\<close> read the fields \<^verbatim>\<open>symbol\<close> and \<^verbatim>\<open>chain\<close> of a payload, and a
  missing or empty string is falsy.
\<close>

type_synonym conn = nat

datatype ready_state = CONNECTING | OPEN | CLOSING | CLOSED

datatype payload =
    Request "string option" "string option"
  | SubscriptionStatus string string string string
  | PricePayload UnifiedPriceData
  | ErrorPayload string real

record WebSocketMessage =
  msg_type :: string
  msg_payload :: payload
  msg_timestamp :: real
  request_id :: "string option"

record manager =
  subscriptions :: "(conn \<times> string set) list"
  readyState :: "conn \<Rightarrow> ready_state"
  sent :: "(conn \<times> WebSocketMessage) list"
  ws_logged :: "log_entry list"
  priceEngine :: engine

fun payload_symbol :: "payload \<Rightarrow> string option" where
  "payload_symbol (Request s c) = s"
| "payload_symbol (SubscriptionStatus st s c k) = Some s"
| "payload_symbol (PricePayload d) = Some (symbol d)"
| "payload_symbol (ErrorPayload m t) = None"

fun payload_chain :: "payload \<Rightarrow> string option" where
  "payload_chain (Request s c) = c"
| "payload_chain (SubscriptionStatus st s c k) = Some c"
| "payload_chain (PricePayload d) = Some (chain d)"
| "payload_chain (ErrorPayload m t) = None"

fun truthy :: "string option \<Rightarrow> string option" where
  "truthy None = None"
| "truthy (Some s) = (if s = [] then None else Some s)"

definition sendMessage :: "conn \<Rightarrow> WebSocketMessage \<Rightarrow> manager \<Rightarrow> manager" where
  "sendMessage ws message m =
     (if readyState m ws = OPEN then m\<lparr>sent := sent m @ [(ws, message)]\<rparr> else m)"

definition sendError :: "real \<Rightarrow> conn \<Rightarrow> string \<Rightarrow> manager \<Rightarrow> manager" where
  "sendError now ws errorMessage m =
     sendMessage ws
       \<lparr>msg_type = ''error'', msg_payload = ErrorPayload errorMessage now,
        msg_timestamp = now, request_id = None\<rparr> m"

text \<open>
  \<^verbatim>\<open>handleSubscribe\<close> up to its \<^verbatim>\<open>await\<close>: the checks, the new key in the connection's
  set, the confirmation, and the call of the price engine. The second component is what
  the handler resumes with, the subscription key and the settled result of the call;
  it is \<open>None\<close> when the handler returned without calling the engine.
\<close>

definition handleSubscribe_before_await ::
  "world \<Rightarrow> conn \<Rightarrow> WebSocketMessage \<Rightarrow> manager
    \<Rightarrow> manager \<times> (string \<times> (error + UnifiedPriceData)) option" where
  "handleSubscribe_before_await w ws message m =
     (case (truthy (payload_symbol (msg_payload message)),
            truthy (payload_chain (msg_payload message))) of
        (Some symb, Some chn) \<Rightarrow>
          (let subscriptionKey = chn @ '':'' @ symb in
           case map_of (subscriptions m) ws of
             None \<Rightarrow> (m, None)
           | Some clientSubscriptions \<Rightarrow>
               let m1 = m\<lparr>subscriptions :=
                           AList.map_entry ws (insert subscriptionKey) (subscriptions m)\<rparr>;
                   m2 = sendMessage ws
                          \<lparr>msg_type = ''subscribe'',
                           msg_payload = SubscriptionStatus ''subscribed'' symb chn subscriptionKey,
                           msg_timestamp = clock w,
                           request_id = truthy (request_id message)\<rparr> m1;
                   fetched = getUnifiedPrice w symb chn (priceEngine m2)
               in (m2\<lparr>priceEngine := snd fetched\<rparr>, Some (subscriptionKey, fst fetched)))
      | _ \<Rightarrow> (sendError (clock w) ws ''Symbol and chain are required for subscription'' m, None))"

text \<open>
  \<^verbatim>\<open>handleSubscribe\<close> from its \<^verbatim>\<open>await\<close> on, in the state \<open>m\<close> the manager is in when
  the handler resumes and at the clock reading \<open>now\<close> of that moment: the price goes to
  \<^verbatim>\<open>sendMessage\<close>, which reads the socket's ready state then, or the error goes to the
  log.
\<close>

definition handleSubscribe_after_await ::
  "real \<Rightarrow> conn \<Rightarrow> string \<times> (error + UnifiedPriceData) \<Rightarrow> manager \<Rightarrow> manager" where
  "handleSubscribe_after_await now ws pending m =
     (let subscriptionKey = fst pending;
          m4 = (case snd pending of
                  Inr priceData \<Rightarrow>
                    sendMessage ws
                      \<lparr>msg_type = ''price_update'', msg_payload = PricePayload priceData,
                       msg_timestamp = now, request_id = None\<rparr> m
                | Inl err \<Rightarrow>
                    m\<lparr>ws_logged := ws_logged m @
                         [LogError (''Failed to get initial price for '' @ subscriptionKey @ '':'') err]\<rparr>)
      in m4\<lparr>ws_logged := ws_logged m4 @
               [LogDebug (''Client subscribed to '' @ subscriptionKey)]\<rparr>)"

text \<open>
  A whole run of the handler: \<open>between\<close> is what the rest of the process (other handlers,
  the sockets) does to the manager while the handler waits, and \<open>now\<close> the clock reading
  when it resumes. \<open>handleSubscribe\<close> is the run in which nothing happens in between.
\<close>

definition handleSubscribe_interleaved ::
  "world \<Rightarrow> (manager \<Rightarrow> manager) \<Rightarrow> real \<Rightarrow> conn \<Rightarrow> WebSocketMessage \<Rightarrow> manager \<Rightarrow> manager" where
  "handleSubscribe_interleaved w between now ws message m =
     (case handleSubscribe_before_await w ws message m of
        (m', None) \<Rightarrow> m'
      | (m', Some pending) \<Rightarrow> handleSubscribe_after_await now ws pending (between m'))"

definition handleSubscribe :: "world \<Rightarrow> conn \<Rightarrow> WebSocketMessage \<Rightarrow> manager \<Rightarrow> manager" where
  "handleSubscribe w ws message m =
     handleSubscribe_interleaved w (\<lambda>m'. m') (clock w) ws message m"

definition handleUnsubscribe :: "world \<Rightarrow> conn \<Rightarrow> WebSocketMessage \<Rightarrow> manager \<Rightarrow> manager" where
  "handleUnsubscribe w ws message m =
     (case (truthy (payload_symbol (msg_payload message)),
            truthy (payload_chain (msg_payload message))) of
        (Some symb, Some chn) \<Rightarrow>
          (let subscriptionKey = chn @ '':'' @ symb in
           case map_of (subscriptions m) ws of
             None \<Rightarrow> m
           | Some clientSubscriptions \<Rightarrow>
               let m1 = m\<lparr>subscriptions :=
                           AList.map_entry ws (\<lambda>ks. ks - {subscriptionKey}) (subscriptions m)\<rparr>;
                   m2 = sendMessage ws
                          \<lparr>msg_type = ''unsubscribe'',
                           msg_payload = SubscriptionStatus ''unsubscribed'' symb chn subscriptionKey,
                           msg_timestamp = clock w,
                           request_id = truthy (request_id message)\<rparr> m1
               in m2\<lparr>ws_logged := ws_logged m2 @
                        [LogDebug (''Client unsubscribed from '' @ subscriptionKey)]\<rparr>)
      | _ \<Rightarrow> sendError (clock w) ws ''Symbol and chain are required for unsubscription'' m)"

definition broadcastPriceUpdate ::
  "real \<Rightarrow> string \<Rightarrow> string \<Rightarrow> UnifiedPriceData \<Rightarrow> manager \<Rightarrow> manager" where
  "broadcastPriceUpdate now symb chn priceData m =
     (let subscriptionKey = chn @ '':'' @ symb in
      foldl (\<lambda>m' (ws, clientSubscriptions).
               if subscriptionKey \<in> clientSubscriptions \<and> readyState m' ws = OPEN
               then sendMessage ws
                      \<lparr>msg_type = ''price_update'', msg_payload = PricePayload priceData,
                       msg_timestamp = now, request_id = None\<rparr> m'
               else m')
        m (subscriptions m))"

section \<open>Quantities of the specification and example inputs\<close>

subsection \<open>The quantities the specification names\<close>

text \<open>
  These definitions follow the words of the specification, not the code: the decay
  horizon of five minutes (in milliseconds, the unit of the timestamps), the recency
  weight, the weight of an observation, the mean weighted by normalised weights, the
  arithmetic mean and the population standard deviation.
\<close>

definition spec_window :: real where
  "spec_window = 5 * 60 * 1000"

definition spec_recencyWeight :: "real \<Rightarrow> PriceSource \<Rightarrow> real" where
  "spec_recencyWeight now s = max 0 (1 - (now - timestamp s) / spec_window)"

definition spec_weight :: "real \<Rightarrow> PriceSource \<Rightarrow> real" where
  "spec_weight now s = confidence s * spec_recencyWeight now s"

definition spec_weighted_mean :: "('a \<Rightarrow> real) \<Rightarrow> ('a \<Rightarrow> real) \<Rightarrow> 'a list \<Rightarrow> real" where
  "spec_weighted_mean w f xs = (\<Sum>x\<leftarrow>xs. (w x / (\<Sum>y\<leftarrow>xs. w y)) * f x)"

definition spec_mean :: "real list \<Rightarrow> real" where
  "spec_mean vs = sum_list vs / real (length vs)"

definition spec_population_stddev :: "real list \<Rightarrow> real" where
  "spec_population_stddev vs =
     sqrt ((\<Sum>v\<leftarrow>vs. (v - spec_mean vs) ^ 2) / real (length vs))"

definition close_to :: "real \<Rightarrow> real \<Rightarrow> jsnum \<Rightarrow> bool" where
  "close_to tol target v = (case v of Num r \<Rightarrow> abs (r - target) \<le> tol | _ \<Rightarrow> False)"

definition spec_spreadPct :: "PriceSource \<Rightarrow> PriceSource \<Rightarrow> jsnum" where
  "spec_spreadPct a b = js_times (js_div \<bar>price a - price b\<bar> ((price a + price b) / 2)) 100"

definition spec_lower :: "PriceSource \<Rightarrow> PriceSource \<Rightarrow> PriceSource" where
  "spec_lower a b = (if price a \<le> price b then a else b)"

definition spec_higher :: "PriceSource \<Rightarrow> PriceSource \<Rightarrow> PriceSource" where
  "spec_higher a b = (if price a \<le> price b then b else a)"

definition spec_opportunity :: "PriceSource \<Rightarrow> PriceSource \<Rightarrow> ArbitrageOpportunity" where
  "spec_opportunity a b =
     \<lparr>buy_source = source (spec_lower a b),
      sell_source = source (spec_higher a b),
      spread_percentage = spec_spreadPct a b,
      profit_potential = \<bar>price a - price b\<bar>,
      opp_confidence = min (confidence a) (confidence b)\<rparr>"

definition spec_threshold :: real where
  "spec_threshold = 1/10"

definition spec_opportunities :: "PriceSource list \<Rightarrow> ArbitrageOpportunity list" where
  "spec_opportunities srcs =
     [spec_opportunity (srcs ! i) (srcs ! j).
        i \<leftarrow> [0..<length srcs], j \<leftarrow> [0..<length srcs], i < j,
        js_gt (spec_spreadPct (srcs ! i) (srcs ! j)) spec_threshold]"

fun js_ge :: "jsnum \<Rightarrow> jsnum \<Rightarrow> bool" where
  "js_ge (Num a) (Num b) = (b \<le> a)"
| "js_ge NaN y = False"
| "js_ge x NaN = False"
| "js_ge PosInf y = True"
| "js_ge x NegInf = True"
| "js_ge x PosInf = False"
| "js_ge NegInf y = False"

definition spec_usable :: "'a settled \<Rightarrow> bool" where
  "spec_usable r = (case r of Fulfilled (Some v) \<Rightarrow> True | _ \<Rightarrow> False)"






text \<open>
  The messages a connection received between two states of the manager, and the shapes
  of the messages the claims speak about.
\<close>

definition deliveries_to :: "conn \<Rightarrow> manager \<Rightarrow> manager \<Rightarrow> WebSocketMessage list" where
  "deliveries_to c m m' = map snd (filter (\<lambda>(c', msg). c' = c) (drop (length (sent m)) (sent m')))"

definition price_update :: "real \<Rightarrow> UnifiedPriceData \<Rightarrow> WebSocketMessage" where
  "price_update now d =
     \<lparr>msg_type = ''price_update'', msg_payload = PricePayload d, msg_timestamp = now,
      request_id = None\<rparr>"

definition subscribe_request :: "string \<Rightarrow> string \<Rightarrow> WebSocketMessage" where
  "subscribe_request symb chn =
     \<lparr>msg_type = ''subscribe'', msg_payload = Request (Some symb) (Some chn), msg_timestamp = 0,
      request_id = None\<rparr>"

definition unsubscribe_request :: "string \<Rightarrow> string \<Rightarrow> WebSocketMessage" where
  "unsubscribe_request symb chn =
     \<lparr>msg_type = ''unsubscribe'', msg_payload = Request (Some symb) (Some chn), msg_timestamp = 0,
      request_id = None\<rparr>"



subsection \<open>Example inputs\<close>

definition two_fresh_sources :: "PriceSource list" where
  "two_fresh_sources =
     [\<lparr>price = 100, confidence = 1/2, source = ''chainlink'', timestamp = 0, latency = 0\<rparr>,
      \<lparr>price = 103, confidence = 1, source = ''pyth'', timestamp = 0, latency = 0\<rparr>]"


definition sources_3_5 :: "PriceSource list" where
  "sources_3_5 =
     [\<lparr>price = 3, confidence = 98/100, source = ''chainlink'', timestamp = 0, latency = 0\<rparr>,
      \<lparr>price = 5, confidence = 95/100, source = ''pyth'', timestamp = 0, latency = 0\<rparr>]"


definition sources_100_102 :: "PriceSource list" where
  "sources_100_102 =
     [\<lparr>price = 100, confidence = 9/10, source = ''chainlink'', timestamp = 0, latency = 0\<rparr>,
      \<lparr>price = 102, confidence = 9/10, source = ''pyth'', timestamp = 0, latency = 0\<rparr>]"

definition spec_example_sources :: "PriceSource list" where
  "spec_example_sources =
     [\<lparr>price = 100, confidence = 90/100, source = ''chainlink'', timestamp = 0, latency = 0\<rparr>,
      \<lparr>price = 1015/10, confidence = 95/100, source = ''pyth'', timestamp = 0, latency = 0\<rparr>]"

definition world_eth_pyth :: world where
  "world_eth_pyth =
     \<lparr>clock = 1000, ttl_price = 30, get_rejects = False, set_rejects = False,
      chainlink = (\<lambda>network pair. Rejected),
      pyth = (\<lambda>pair. if pair = ''ETH/USD''
               then Fulfilled (Some
                 \<lparr>pyth_price = 2500, pyth_confidence = 95/100, pyth_timestamp = 1000,
                  pyth_publishTime = 900\<rparr>)
               else Fulfilled None)\<rparr>"


definition world_both :: world where
  "world_both =
     \<lparr>clock = 1000, ttl_price = 30, get_rejects = False, set_rejects = False,
      chainlink = (\<lambda>network pair. Fulfilled (Some
               \<lparr>pd_price = 2498, pd_confidence = 98/100, pd_timestamp = 1000\<rparr>)),
      pyth = (\<lambda>pair. Fulfilled (Some
               \<lparr>pyth_price = 2500, pyth_confidence = 95/100, pyth_timestamp = 1000,
                pyth_publishTime = 900\<rparr>))\<rparr>"

definition engine_empty :: engine where
  "engine_empty = \<lparr>client = Some Map.empty, logged = []\<rparr>"

definition engine_disconnected :: engine where
  "engine_disconnected = \<lparr>client = None, logged = []\<rparr>"


definition world_write_fails :: world where
  "world_write_fails = world_both\<lparr>set_rejects := True\<rparr>"

definition three_clients :: manager where
  "three_clients =
     \<lparr>subscriptions = [(3, {''ethereum:ETH''}), (1, {}), (2, {})],
      readyState = (\<lambda>c. if c = 3 then CLOSED else OPEN),
      sent = [],
      ws_logged = [],
      priceEngine = engine_empty\<rparr>"

definition example_price :: UnifiedPriceData where
  "example_price =
     \<lparr>symbol = ''ETH'', chain = ''ethereum'', unified_price = 2499, unified_confidence = 96/100,
      unified_timestamp = 1000, sources = [''chainlink'', ''pyth''], source_count = 2,
      price_deviation = Num 0, arbitrage_opportunities = [],
      metadata = \<lparr>last_updated = 1000, data_freshness = ''0s'', api_version = ''1.0''\<rparr>\<rparr>"


definition two_subscribed :: manager where
  "two_subscribed =
     handleSubscribe world_both 2 (subscribe_request ''MATIC'' ''polygon'')
       (handleSubscribe world_both 1 (subscribe_request ''ETH'' ''ethereum'') three_clients)"

definition one_unsubscribed :: manager where
  "one_unsubscribed =
     handleUnsubscribe world_both 1 (unsubscribe_request ''ETH'' ''ethereum'')
       (broadcastPriceUpdate 2000 ''ETH'' ''ethereum'' example_price two_subscribed)"


definition example_fetched :: UnifiedPriceData where
  "example_fetched =
     unifiedData world_eth_pyth ''ETH'' ''ethereum''
       [\<lparr>price = 2500, confidence = 95/100, source = ''pyth'', timestamp = 1000, latency = 100\<rparr>]
       \<lparr>price = 2500, confidence = 95/100\<rparr>"




section \<open>Reducers as sums\<close>

lemma foldl_add_sum_list:
  fixes f :: "'a \<Rightarrow> real"
  shows "foldl (\<lambda>sum x. sum + f x) a xs = a + (\<Sum>x\<leftarrow>xs. f x)"
  by (induction xs arbitrary: a) simp_all

lemma foldl_add_sum_list0:
  fixes f :: "'a \<Rightarrow> real"
  shows "foldl (\<lambda>sum x. sum + f x) 0 xs = (\<Sum>x\<leftarrow>xs. f x)"
  by (simp add: foldl_add_sum_list)

lemma ageWeight_spec: "ageWeight now s = spec_recencyWeight now s"
  by (simp add: ageWeight_def spec_recencyWeight_def spec_window_def)


section \<open>Single observation\<close>

text \<open>
  Claim C2. A list of exactly one observation is passed through: the consensus has that
  observation's price and confidence, and the deviation of the list is 0.
\<close>

theorem single_source_passthrough:
  "calculateWeightedAverage now [s] = Inr \<lparr>price = price s, confidence = confidence s\<rparr>
   \<and> calculateDeviation [s] = Num 0"
  by (simp add: calculateWeightedAverage_def calculateDeviation_def)

section \<open>Two or more observations\<close>

lemma calculateWeightedAverage_sums:
  assumes "2 \<le> length srcs"
  shows "calculateWeightedAverage now srcs =
           (let T = (\<Sum>s\<leftarrow>srcs. confidence s * ageWeight now s) in
            Inr \<lparr>price =
                  (if T = 0
                   then (\<Sum>s\<leftarrow>srcs. price s) / real (length srcs)
                   else (\<Sum>s\<leftarrow>srcs. price s * (confidence s * ageWeight now s / T))),
                confidence = (\<Sum>s\<leftarrow>srcs. confidence s) / real (length srcs)\<rparr>)"
proof -
  have len: "length srcs \<noteq> 0" "length srcs \<noteq> 1"
    using assms by auto
  show ?thesis
    unfolding calculateWeightedAverage_def Let_def foldl_add_sum_list0
    using len by simp
qed

text \<open>
  Claim C1. For two or more observations the consensus price is the mean of the prices
  weighted by confidence times recency weight, the weights normalised by their sum, with
  a window of five minutes; when the weights sum to 0 the price is the arithmetic mean
  of the prices; in both cases the confidence is the arithmetic mean of the confidences.
\<close>

theorem weighted_average_formula:
  assumes "2 \<le> length srcs"
  shows "calculateWeightedAverage now srcs =
           Inr \<lparr>price =
                  (if (\<Sum>s\<leftarrow>srcs. spec_weight now s) = 0
                   then spec_mean (map price srcs)
                   else spec_weighted_mean (spec_weight now) price srcs),
                confidence = spec_mean (map confidence srcs)\<rparr>"
proof -
  have T: "(\<Sum>s\<leftarrow>srcs. confidence s * ageWeight now s) = (\<Sum>s\<leftarrow>srcs. spec_weight now s)"
    by (simp add: spec_weight_def ageWeight_spec)
  have m: "(\<Sum>s\<leftarrow>srcs. price s * (confidence s * ageWeight now s / T))
           = (\<Sum>s\<leftarrow>srcs. spec_weight now s / T * price s)" for T
    by (simp add: spec_weight_def ageWeight_spec mult.commute)
  show ?thesis
    unfolding calculateWeightedAverage_sums [OF assms] Let_def T m
    by (simp add: spec_mean_def spec_weighted_mean_def o_def)
qed

theorem weighted_average_formula_witness:
  "2 \<le> length two_fresh_sources
   \<and> calculateWeightedAverage 0 two_fresh_sources = Inr \<lparr>price = 102, confidence = 3/4\<rparr>"
  using weighted_average_formula [of two_fresh_sources 0]
  by (simp add: two_fresh_sources_def spec_weight_def spec_recencyWeight_def spec_mean_def
        spec_weighted_mean_def spec_window_def)

section \<open>The consensus price lies between the extreme prices\<close>








section \<open>Deviation\<close>

text \<open>
  Claim C4. The deviation is the population standard deviation of the prices divided by
  their arithmetic mean, times 100, and it is 0 for fewer than two observations. The
  quotient is the one JavaScript computes; where the mean is not 0 it is the real
  quotient.
\<close>

theorem deviation_formula:
  "calculateDeviation srcs =
     (if length srcs < 2 then Num 0
      else js_times (js_div (spec_population_stddev (map price srcs))
                            (spec_mean (map price srcs))) 100)
   \<and> (2 \<le> length srcs \<and> spec_mean (map price srcs) \<noteq> 0 \<longrightarrow>
        calculateDeviation srcs =
          Num (spec_population_stddev (map price srcs) / spec_mean (map price srcs) * 100))"
  by (simp add: calculateDeviation_def Let_def foldl_add_sum_list0 spec_population_stddev_def
        spec_mean_def o_def js_div_def)

theorem deviation_formula_witness:
  "2 \<le> length sources_3_5 \<and> spec_mean (map price sources_3_5) \<noteq> 0
   \<and> calculateDeviation sources_3_5 = Num 25"
  using deviation_formula [of sources_3_5]
  by (simp add: sources_3_5_def spec_population_stddev_def spec_mean_def js_div_def)

text \<open>
  Claim C5, as stated: for two observations with prices 100 and 102 the deviation is
  about 1.98. The engine returns 100/101, about 0.99: the mean is 101 and the population
  standard deviation is 1. The value is not within one half of 1.98.
\<close>

theorem deviation_100_102_counterexample:
  "calculateDeviation sources_100_102 = Num (100 / 101)
   \<and> \<not> close_to (1/2) (198/100) (calculateDeviation sources_100_102)"
  by (simp add: calculateDeviation_def sources_100_102_def Let_def close_to_def js_div_def)

text \<open>
  Claim C5, amended: for two observations with prices 100 and 102, of equal confidence
  and timestamp, the deviation is 100/101, which is 0.99 to two decimal places.
\<close>

theorem deviation_100_102:
  "calculateDeviation
     [\<lparr>price = 100, confidence = c, source = a, timestamp = t, latency = l\<rparr>,
      \<lparr>price = 102, confidence = c, source = b, timestamp = t, latency = m\<rparr>]
     = Num (100 / 101)
   \<and> close_to (5/1000) (99/100)
        (calculateDeviation
          [\<lparr>price = 100, confidence = c, source = a, timestamp = t, latency = l\<rparr>,
           \<lparr>price = 102, confidence = c, source = b, timestamp = t, latency = m\<rparr>])"
  by (simp add: calculateDeviation_def Let_def close_to_def js_div_def)

section \<open>Arbitrage detection\<close>

subsection \<open>The sort\<close>

lemma place_by_mset: "mset (place_by cmp a bs) = add_mset a (mset bs)"
  by (induction bs) simp_all

lemma js_sort_mset: "mset (js_sort cmp xs) = mset xs"
  unfolding js_sort_def by (induction xs) (simp_all add: place_by_mset)

lemma place_by_set: "set (place_by cmp a bs) = insert a (set bs)"
  by (induction bs) auto

lemma js_sort_set: "set (js_sort cmp xs) = set xs"
  unfolding js_sort_def by (induction xs) (simp_all add: place_by_set)

lemma js_gt_sub_iff: "u \<noteq> NaN \<Longrightarrow> v \<noteq> NaN \<Longrightarrow> js_gt (js_sub v u) 0 \<longleftrightarrow> \<not> js_ge u v"
  by (cases u; cases v) auto

lemma js_ge_total: "u \<noteq> NaN \<Longrightarrow> v \<noteq> NaN \<Longrightarrow> js_ge u v \<or> js_ge v u"
  by (cases u; cases v) auto

lemma js_ge_trans: "js_ge u v \<Longrightarrow> js_ge v w \<Longrightarrow> js_ge u w"
  by (cases u; cases v; cases w) auto

lemma place_by_sorted:
  assumes "sorted_wrt (\<lambda>a b. js_ge (key a) (key b)) bs"
    and "key a \<noteq> NaN" and "\<forall>b\<in>set bs. key b \<noteq> NaN"
  shows "sorted_wrt (\<lambda>a b. js_ge (key a) (key b)) (place_by (\<lambda>a b. js_sub (key b) (key a)) a bs)"
  using assms
proof (induction bs)
  case Nil
  then show ?case by simp
next
  case (Cons b bs)
  have nb: "key b \<noteq> NaN" using Cons.prems by simp
  show ?case
  proof (cases "js_gt (js_sub (key b) (key a)) 0")
    case True
    then have "\<not> js_ge (key a) (key b)"
      using js_gt_sub_iff [OF Cons.prems(2) nb] by simp
    then have "js_ge (key b) (key a)"
      using js_ge_total [OF Cons.prems(2) nb] by blast
    moreover have "sorted_wrt (\<lambda>a b. js_ge (key a) (key b)) (place_by (\<lambda>a b. js_sub (key b) (key a)) a bs)"
      using Cons by simp
    ultimately show ?thesis
      using True Cons.prems(1) by (simp add: place_by_set)
  next
    case False
    then have ab: "js_ge (key a) (key b)"
      using js_gt_sub_iff [OF Cons.prems(2) nb] by simp
    have "\<forall>y\<in>set bs. js_ge (key a) (key y)"
      using Cons.prems(1) ab by (auto intro: js_ge_trans)
    then show ?thesis
      using False ab Cons.prems(1) by simp
  qed
qed

lemma js_sort_sorted:
  assumes "\<forall>x\<in>set xs. key x \<noteq> NaN"
  shows "sorted_wrt (\<lambda>a b. js_ge (key a) (key b)) (js_sort (\<lambda>a b. js_sub (key b) (key a)) xs)"
  using assms
proof (induction xs)
  case Nil
  then show ?case by (simp add: js_sort_def)
next
  case (Cons x xs)
  have "sorted_wrt (\<lambda>a b. js_ge (key a) (key b))
          (place_by (\<lambda>a b. js_sub (key b) (key a)) x (js_sort (\<lambda>a b. js_sub (key b) (key a)) xs))"
    by (rule place_by_sorted) (use Cons in \<open>simp_all add: js_sort_set\<close>)
  then show ?case by (simp add: js_sort_def)
qed

subsection \<open>The loops\<close>

lemma arbitrage_step_append:
  "arbitrage_step a b opps = opps @ arbitrage_step a b []"
  by (simp add: arbitrage_step_def Let_def)

lemma js_gt_spread_neq:
  "js_gt (js_times (js_div \<bar>p - q\<bar> ((p + q) / 2)) 100) (1/10) \<Longrightarrow> p \<noteq> q"
  by (auto simp: js_div_def split: if_splits)

lemma arbitrage_step_spec:
  "arbitrage_step a b [] =
     (if js_gt (spec_spreadPct a b) spec_threshold then [spec_opportunity a b] else [])"
proof (cases "js_gt (spec_spreadPct a b) spec_threshold")
  case True
  then have "price a \<noteq> price b"
    unfolding spec_spreadPct_def spec_threshold_def by (rule js_gt_spread_neq)
  with True show ?thesis
    by (simp add: arbitrage_step_def Let_def spec_spreadPct_def spec_threshold_def
          spec_opportunity_def spec_lower_def spec_higher_def)
next
  case False
  then show ?thesis
    by (simp add: arbitrage_step_def Let_def spec_spreadPct_def spec_threshold_def)
qed

lemma detectArbitrage_inner_concat:
  "detectArbitrage_inner srcs i j opps =
     opps @ concat (map (\<lambda>k. arbitrage_step (srcs ! i) (srcs ! k) []) [j..<length srcs])"
proof (induction srcs i j opps rule: detectArbitrage_inner.induct)
  case (1 srcs i j opps)
  show ?case
  proof (cases "j < length srcs")
    case True
    then have "[j..<length srcs] = j # [j + 1..<length srcs]"
      by (simp add: upt_conv_Cons)
    with True 1 show ?thesis
      by (subst detectArbitrage_inner.simps)
         (simp add: arbitrage_step_append [of _ _ opps])
  next
    case False
    then show ?thesis by (subst detectArbitrage_inner.simps) simp
  qed
qed

lemma detectArbitrage_outer_concat:
  "detectArbitrage_outer srcs i opps =
     opps @ concat (map (\<lambda>h. concat (map (\<lambda>k. arbitrage_step (srcs ! h) (srcs ! k) [])
                                        [h + 1..<length srcs])) [i..<length srcs])"
proof (induction srcs i opps rule: detectArbitrage_outer.induct)
  case (1 srcs i opps)
  show ?case
  proof (cases "i < length srcs")
    case True
    then have "[i..<length srcs] = i # [i + 1..<length srcs]"
      by (simp add: upt_conv_Cons)
    with True 1 show ?thesis
      by (subst detectArbitrage_outer.simps) (simp add: detectArbitrage_inner_concat)
  next
    case False
    then show ?thesis by (subst detectArbitrage_outer.simps) simp
  qed
qed

lemma concat_above:
  "concat (map (\<lambda>j. if i < j then f j else []) [0..<n]) = concat (map f [i + 1..<n])"
proof (induction n)
  case 0
  then show ?case by simp
next
  case (Suc n)
  show ?case
  proof (cases "i < n")
    case True
    then have "[i + 1..<Suc n] = [i + 1..<n] @ [n]" by simp
    with True Suc show ?thesis by simp
  next
    case False
    with Suc show ?thesis by simp
  qed
qed

lemma detectArbitrage_outer_spec:
  "detectArbitrage_outer srcs 0 [] = spec_opportunities srcs"
proof -
  have "spec_opportunities srcs =
          concat (map (\<lambda>i. concat (map (\<lambda>j. if i < j then arbitrage_step (srcs ! i) (srcs ! j) [] else [])
                                         [0..<length srcs])) [0..<length srcs])"
    unfolding spec_opportunities_def arbitrage_step_spec
    by (auto intro!: arg_cong [where f = concat] map_cong)
  then show ?thesis
    by (simp add: detectArbitrage_outer_concat concat_above)
qed

lemma spec_opportunities_not_NaN:
  "\<forall>x\<in>set (spec_opportunities srcs). spread_percentage x \<noteq> NaN"
  by (auto simp: spec_opportunities_def spec_opportunity_def)

text \<open>
  Claim C6. detectArbitrage emits one opportunity for each unordered pair of observations
  whose spread, the absolute price difference over the average of the two prices times
  100, is strictly greater than 0.1, and for no other pair; the opportunity buys at the
  lower-priced source and sells at the higher-priced one, its profit potential is the
  absolute price difference and its confidence the smaller of the two confidences; the
  returned list is in descending order of spread.
\<close>

theorem detectArbitrage_pairs_sorted:
  "mset (detectArbitrage srcs) = mset (spec_opportunities srcs)
   \<and> sorted_wrt (\<lambda>a b. js_ge (spread_percentage a) (spread_percentage b)) (detectArbitrage srcs)"
  unfolding detectArbitrage_def detectArbitrage_outer_spec
  using js_sort_sorted [of "spec_opportunities srcs" spread_percentage, OF spec_opportunities_not_NaN]
  by (simp add: js_sort_mset)


lemma spec_opportunities_example: "spec_opportunities spec_example_sources =
     [\<lparr>buy_source = ''chainlink'', sell_source = ''pyth'',
       spread_percentage = Num (600 / 403), profit_potential = 3/2, opp_confidence = 9/10\<rparr>]"
  by (simp add: spec_example_sources_def spec_opportunities_def spec_opportunity_def spec_spreadPct_def
       spec_threshold_def spec_lower_def spec_higher_def js_div_def upt_rec)

theorem detectArbitrage_pairs_sorted_witness:
  "detectArbitrage spec_example_sources =
     [\<lparr>buy_source = ''chainlink'', sell_source = ''pyth'',
       spread_percentage = Num (600 / 403), profit_potential = 3/2, opp_confidence = 9/10\<rparr>]
   \<and> close_to (5/1000) (149/100) (Num (600 / 403))"
  using detectArbitrage_pairs_sorted [of spec_example_sources]
  by (simp add: spec_opportunities_example close_to_def)

section \<open>Requests\<close>



lemma calculateWeightedAverage_nonempty:
  "srcs \<noteq> [] \<Longrightarrow> \<exists>r. calculateWeightedAverage now srcs = Inr r"
  by (cases srcs) (simp_all add: calculateWeightedAverage_def Let_def)

lemma redis_get_miss_client:
  "redis_get w e key = Inr None \<Longrightarrow> \<exists>store. client e = Some store"
  by (simp add: redis_get_def split: option.splits)


lemma getUnifiedPrice_fetched:
  assumes miss: "redis_get w e (''unified:'' @ chn @ '':'' @ symb) = Inr None"
    and ne: "gather w symb chn \<noteq> []"
  shows "\<exists>r. calculateWeightedAverage (clock w) (gather w symb chn) = Inr r
           \<and> getUnifiedPrice w symb chn e =
               (case redis_set w e (''unified:'' @ chn @ '':'' @ symb)
                       (unifiedData w symb chn (gather w symb chn) r) (ttl_price w) of
                  Inl err \<Rightarrow> (Inl err, log_failure symb chn err e)
                | Inr e' \<Rightarrow> (Inr (unifiedData w symb chn (gather w symb chn) r),
                     e'\<lparr>logged := logged e' @
                           [LogDebug (''Unified price calculated for '' @ chn @ '':'' @ symb)]\<rparr>))"
proof -
  obtain r where r: "calculateWeightedAverage (clock w) (gather w symb chn) = Inr r"
    using calculateWeightedAverage_nonempty [OF ne] by blast
  show ?thesis
    using miss ne r by (simp add: getUnifiedPrice_def Let_def)
qed









text \<open>
  Claim C8, as stated: a failing cache operation is treated as a miss and the request
  still returns the consensus. Here both adapters return a usable observation and the
  Redis client is not connected: the probe throws and the request fails with that error.
\<close>

theorem cache_failure_is_fatal_counterexample:
  "spec_usable (chainlink world_both ''ethereum'' (''ETH'' @ ''/USD''))
   \<and> spec_usable (pyth world_both (''ETH'' @ ''/USD''))
   \<and> redis_get world_both engine_disconnected (''unified:'' @ ''ethereum'' @ '':'' @ ''ETH'')
        = Inl RedisNotConnected
   \<and> fst (getUnifiedPrice world_both ''ETH'' ''ethereum'' engine_disconnected) = Inl RedisNotConnected"
  by (simp add: getUnifiedPrice_def redis_get_def engine_disconnected_def world_both_def
        spec_usable_def)

text \<open>
  Claim C8, amended: a failure of a cache operation fails the request. When the probe
  fails, no source is fetched and the probe's error is logged and returned; when the
  write after computing is rejected, the computed result is not returned and the request
  fails with the cache error.
\<close>

theorem cache_failure_is_fatal:
  "(redis_get w e (''unified:'' @ chn @ '':'' @ symb) = Inl err \<longrightarrow>
      getUnifiedPrice w symb chn e = (Inl err, log_failure symb chn err e))
   \<and> (redis_get w e (''unified:'' @ chn @ '':'' @ symb) = Inr None
        \<and> gather w symb chn \<noteq> [] \<and> set_rejects w \<longrightarrow>
      getUnifiedPrice w symb chn e
        = (Inl RedisCommandFailed, log_failure symb chn RedisCommandFailed e))"
proof -
  have probe: "getUnifiedPrice w symb chn e = (Inl err, log_failure symb chn err e)"
    if "redis_get w e (''unified:'' @ chn @ '':'' @ symb) = Inl err"
    using that by (simp add: getUnifiedPrice_def)
  have wfail: "getUnifiedPrice w symb chn e
        = (Inl RedisCommandFailed, log_failure symb chn RedisCommandFailed e)"
    if miss: "redis_get w e (''unified:'' @ chn @ '':'' @ symb) = Inr None"
      and ne: "gather w symb chn \<noteq> []" and rej: "set_rejects w"
  proof -
    obtain store where store: "client e = Some store"
      using redis_get_miss_client [OF miss] by blast
    obtain r where run: "getUnifiedPrice w symb chn e =
       (case redis_set w e (''unified:'' @ chn @ '':'' @ symb)
               (unifiedData w symb chn (gather w symb chn) r) (ttl_price w) of
          Inl err \<Rightarrow> (Inl err, log_failure symb chn err e)
        | Inr e' \<Rightarrow> (Inr (unifiedData w symb chn (gather w symb chn) r),
             e'\<lparr>logged := logged e' @
                   [LogDebug (''Unified price calculated for '' @ chn @ '':'' @ symb)]\<rparr>))"
      using getUnifiedPrice_fetched [OF miss ne] by blast
    show ?thesis
      unfolding run using rej by (simp add: redis_set_def store)
  qed
  show ?thesis using probe wfail by blast
qed

theorem cache_failure_is_fatal_witness:
  "redis_get world_both engine_disconnected (''unified:'' @ ''ethereum'' @ '':'' @ ''ETH'')
     = Inl RedisNotConnected
   \<and> fst (getUnifiedPrice world_both ''ETH'' ''ethereum'' engine_disconnected) = Inl RedisNotConnected
   \<and> redis_get world_write_fails engine_empty (''unified:'' @ ''ethereum'' @ '':'' @ ''ETH'') = Inr None
   \<and> gather world_write_fails ''ETH'' ''ethereum'' \<noteq> []
   \<and> set_rejects world_write_fails
   \<and> fst (getUnifiedPrice world_write_fails ''ETH'' ''ethereum'' engine_empty) = Inl RedisCommandFailed
   \<and> client (snd (getUnifiedPrice world_write_fails ''ETH'' ''ethereum'' engine_empty))
       = client engine_empty"
  using cache_failure_is_fatal [of world_both engine_disconnected "''ethereum''" "''ETH''" RedisNotConnected]
    cache_failure_is_fatal [of world_write_fails engine_empty "''ethereum''" "''ETH''"]
  by (simp add: redis_get_def engine_disconnected_def engine_empty_def world_write_fails_def
        world_both_def gather_def log_failure_def)

section \<open>Subscriptions and broadcasts\<close>

lemma sendMessage_keeps [simp]:
  "subscriptions (sendMessage ws msg m) = subscriptions m"
  "readyState (sendMessage ws msg m) = readyState m"
  "ws_logged (sendMessage ws msg m) = ws_logged m"
  "priceEngine (sendMessage ws msg m) = priceEngine m"
  by (simp_all add: sendMessage_def)

lemma sendMessage_sent:
  "sent (sendMessage ws msg m) = sent m @ (if readyState m ws = OPEN then [(ws, msg)] else [])"
  by (simp add: sendMessage_def)

lemma map_entry_absent: "map_of xs k = None \<Longrightarrow> AList.map_entry k f xs = xs"
  by (induction xs) (auto split: if_splits)

lemma handleSubscribe_subscriptions:
  assumes "payload_symbol (msg_payload message) = Some symb" "payload_chain (msg_payload message) = Some chn"
    and "symb \<noteq> []" "chn \<noteq> []"
  shows "subscriptions (handleSubscribe w ws message m)
           = AList.map_entry ws (insert (chn @ '':'' @ symb)) (subscriptions m)"
    and "readyState (handleSubscribe w ws message m) = readyState m"
  using assms
  by (auto simp: handleSubscribe_def handleSubscribe_interleaved_def handleSubscribe_before_await_def
        handleSubscribe_after_await_def Let_def map_entry_absent split: option.splits sum.splits)

lemma handleUnsubscribe_subscriptions:
  assumes "payload_symbol (msg_payload message) = Some symb" "payload_chain (msg_payload message) = Some chn"
    and "symb \<noteq> []" "chn \<noteq> []"
  shows "subscriptions (handleUnsubscribe w ws message m)
           = AList.map_entry ws (\<lambda>ks. ks - {chn @ '':'' @ symb}) (subscriptions m)"
    and "readyState (handleUnsubscribe w ws message m) = readyState m"
  using assms
  by (auto simp: handleUnsubscribe_def Let_def map_entry_absent split: option.splits)

lemma broadcast_loop:
  "foldl (\<lambda>m' (ws, clientSubscriptions).
            if key \<in> clientSubscriptions \<and> readyState m' ws = OPEN
            then sendMessage ws msg m' else m') m xs
   = m\<lparr>sent := sent m @
         map (\<lambda>(ws, ks). (ws, msg)) (filter (\<lambda>(ws, ks). key \<in> ks \<and> readyState m ws = OPEN) xs)\<rparr>"
proof (induction xs arbitrary: m)
  case Nil
  then show ?case by simp
next
  case (Cons x xs)
  obtain ws ks where x: "x = (ws, ks)" by (cases x)
  show ?case
    unfolding x by (simp add: Cons.IH sendMessage_def)
qed

lemma broadcastPriceUpdate_sent:
  "broadcastPriceUpdate now symb chn d m
   = m\<lparr>sent := sent m @
         map (\<lambda>(ws, ks). (ws, price_update now d))
           (filter (\<lambda>(ws, ks). chn @ '':'' @ symb \<in> ks \<and> readyState m ws = OPEN) (subscriptions m))\<rparr>"
  unfolding broadcastPriceUpdate_def Let_def price_update_def by (rule broadcast_loop)

lemma filter_entry_distinct:
  assumes "distinct (map fst xs)"
  shows "filter (\<lambda>(c, ks). c = a \<and> Q ks) xs
         = (case map_of xs a of Some ks \<Rightarrow> if Q ks then [(a, ks)] else [] | None \<Rightarrow> [])"
  using assms
proof (induction xs)
  case Nil
  then show ?case by simp
next
  case (Cons x xs)
  obtain c ks where x: "x = (c, ks)" by (cases x)
  show ?case
  proof (cases "c = a")
    case True
    then have "map_of xs a = None"
      using Cons.prems x by (simp add: map_of_eq_None_iff)
    with True Cons show ?thesis
      unfolding x by simp
  next
    case False
    with Cons show ?thesis unfolding x by simp
  qed
qed

lemma broadcast_deliveries_to:
  assumes "distinct (map fst (subscriptions m))"
  shows "deliveries_to c m (broadcastPriceUpdate now symb chn d m)
         = (case map_of (subscriptions m) c of
              Some ks \<Rightarrow> if chn @ '':'' @ symb \<in> ks \<and> readyState m c = OPEN
                         then [price_update now d] else []
            | None \<Rightarrow> [])"
proof -
  have "deliveries_to c m (broadcastPriceUpdate now symb chn d m)
        = map (\<lambda>x. price_update now d)
            (filter (\<lambda>(ws, ks). ws = c \<and> (chn @ '':'' @ symb \<in> ks \<and> readyState m c = OPEN))
               (subscriptions m))"
    unfolding deliveries_to_def broadcastPriceUpdate_sent
    by (simp add: filter_map o_def case_prod_unfold)
       (rule arg_cong [where f = "map _"], rule filter_cong, auto)
  then show ?thesis
    unfolding filter_entry_distinct [OF assms, where Q = "\<lambda>ks. chn @ '':'' @ symb \<in> ks \<and> readyState m c = OPEN"]
    by (simp split: option.splits)
qed

lemma broadcast_only_open:
  "(c, msg) \<in> set (drop (length (sent m)) (sent (broadcastPriceUpdate now symb chn d m)))
   \<Longrightarrow> readyState m c = OPEN \<and> msg = price_update now d"
  unfolding broadcastPriceUpdate_sent by auto


text \<open>
  Claim C9. Connection \<open>a\<close> subscribes to a key and connection \<open>b\<close> to a different
  key (and \<open>b\<close> holds no subscription to the key of \<open>a\<close>). A broadcast for the key of
  \<open>a\<close> then delivers exactly one \<^verbatim>\<open>price_update\<close> message to \<open>a\<close> and none to \<open>b\<close>; after
  \<open>a\<close> unsubscribes from the key, a further broadcast for it delivers nothing to \<open>a\<close>.
  In any state, a broadcast sends only to connections whose socket is open, and every
  open connection subscribed to the key receives its one message whatever the state of
  the other connections.
\<close>

theorem broadcast_delivery:
  assumes wf: "distinct (map fst (subscriptions m))"
    and regA: "map_of (subscriptions m) a = Some ka"
    and regB: "map_of (subscriptions m) b = Some kb"
    and ab: "a \<noteq> b"
    and reqA: "payload_symbol (msg_payload ra) = Some sa" "payload_chain (msg_payload ra) = Some ca"
              "sa \<noteq> []" "ca \<noteq> []"
    and reqB: "payload_symbol (msg_payload rb) = Some sb" "payload_chain (msg_payload rb) = Some cb"
              "sb \<noteq> []" "cb \<noteq> []"
    and reqU: "payload_symbol (msg_payload ru) = Some sa" "payload_chain (msg_payload ru) = Some ca"
    and other: "cb @ '':'' @ sb \<noteq> ca @ '':'' @ sa" "ca @ '':'' @ sa \<notin> kb"
    and opn: "readyState m a = OPEN"
    and m2: "m2 = handleSubscribe w2 b rb (handleSubscribe w1 a ra m)"
    and m3: "m3 = handleUnsubscribe w3 a ru (broadcastPriceUpdate now sa ca d m2)"
  shows "deliveries_to a m2 (broadcastPriceUpdate now sa ca d m2) = [price_update now d]
       \<and> deliveries_to b m2 (broadcastPriceUpdate now sa ca d m2) = []
       \<and> deliveries_to a m3 (broadcastPriceUpdate now' sa ca d' m3) = []
       \<and> (\<forall>s t sy ch dd c msg.
            (c, msg) \<in> set (drop (length (sent s)) (sent (broadcastPriceUpdate t sy ch dd s)))
            \<longrightarrow> readyState s c = OPEN)
       \<and> (\<forall>s t sy ch dd c ks.
            distinct (map fst (subscriptions s)) \<and> map_of (subscriptions s) c = Some ks
            \<and> ch @ '':'' @ sy \<in> ks \<and> readyState s c = OPEN
            \<longrightarrow> deliveries_to c s (broadcastPriceUpdate t sy ch dd s) = [price_update t dd])"
proof -
  let ?key = "ca @ '':'' @ sa"
  let ?m1 = "handleSubscribe w1 a ra m"
  have s1: "subscriptions ?m1 = AList.map_entry a (insert ?key) (subscriptions m)"
    and r1: "readyState ?m1 = readyState m"
    using handleSubscribe_subscriptions [OF reqA] by simp_all
  have s2: "subscriptions m2
              = AList.map_entry b (insert (cb @ '':'' @ sb)) (AList.map_entry a (insert ?key) (subscriptions m))"
    and r2: "readyState m2 = readyState m"
    unfolding m2 using handleSubscribe_subscriptions [OF reqB] s1 r1 by simp_all
  have d2: "distinct (map fst (subscriptions m2))"
    unfolding s2 by (intro distinct_map_entry wf)
  have a2: "map_of (subscriptions m2) a = Some (insert ?key ka)"
    unfolding s2 using ab regA by (simp add: map_of_map_entry)
  have b2: "map_of (subscriptions m2) b = Some (insert (cb @ '':'' @ sb) kb)"
    unfolding s2 using ab regB by (simp add: map_of_map_entry)
  have first: "deliveries_to a m2 (broadcastPriceUpdate now sa ca d m2) = [price_update now d]"
    unfolding broadcast_deliveries_to [OF d2] a2 using opn r2 by simp
  have second: "deliveries_to b m2 (broadcastPriceUpdate now sa ca d m2) = []"
    unfolding broadcast_deliveries_to [OF d2] b2 using other by auto
  let ?mb = "broadcastPriceUpdate now sa ca d m2"
  have sb: "subscriptions ?mb = subscriptions m2"
    by (simp add: broadcastPriceUpdate_sent)
  have s3: "subscriptions m3 = AList.map_entry a (\<lambda>ks. ks - {?key}) (subscriptions m2)"
    unfolding m3 using handleUnsubscribe_subscriptions(1) [OF reqU reqA(3,4)] sb by simp
  have d3: "distinct (map fst (subscriptions m3))"
    unfolding s3 by (intro distinct_map_entry d2)
  have a3: "map_of (subscriptions m3) a = Some (insert ?key ka - {?key})"
    unfolding s3 using a2 by (simp add: map_of_map_entry)
  have third: "deliveries_to a m3 (broadcastPriceUpdate now' sa ca d' m3) = []"
    unfolding broadcast_deliveries_to [OF d3] a3 by simp
  have fourth: "\<forall>s t sy ch dd c msg.
            (c, msg) \<in> set (drop (length (sent s)) (sent (broadcastPriceUpdate t sy ch dd s)))
            \<longrightarrow> readyState s c = OPEN"
    using broadcast_only_open by blast
  have fifth: "\<forall>s t sy ch dd c ks.
            distinct (map fst (subscriptions s)) \<and> map_of (subscriptions s) c = Some ks
            \<and> ch @ '':'' @ sy \<in> ks \<and> readyState s c = OPEN
            \<longrightarrow> deliveries_to c s (broadcastPriceUpdate t sy ch dd s) = [price_update t dd]"
    by (auto simp: broadcast_deliveries_to)
  show ?thesis
    using first second third fourth fifth by blast
qed


theorem broadcast_delivery_witness:
  "distinct (map fst (subscriptions three_clients))
   \<and> map_of (subscriptions three_clients) 1 = Some {}
   \<and> map_of (subscriptions three_clients) 2 = Some {}
   \<and> readyState three_clients 1 = OPEN
   \<and> readyState three_clients 3 = CLOSED
   \<and> deliveries_to 1 two_subscribed
        (broadcastPriceUpdate 2000 ''ETH'' ''ethereum'' example_price two_subscribed)
       = [price_update 2000 example_price]
   \<and> deliveries_to 2 two_subscribed
        (broadcastPriceUpdate 2000 ''ETH'' ''ethereum'' example_price two_subscribed) = []
   \<and> deliveries_to 1 one_unsubscribed
        (broadcastPriceUpdate 3000 ''ETH'' ''ethereum'' example_price one_unsubscribed) = []"
proof -
  have wf: "distinct (map fst (subscriptions three_clients))"
    and regA: "map_of (subscriptions three_clients) 1 = Some {}"
    and regB: "map_of (subscriptions three_clients) 2 = Some {}"
    and opn: "readyState three_clients 1 = OPEN"
    and dead: "readyState three_clients 3 = CLOSED"
    by (simp_all add: three_clients_def)
  have reqA: "payload_symbol (msg_payload (subscribe_request ''ETH'' ''ethereum'')) = Some ''ETH''"
      "payload_chain (msg_payload (subscribe_request ''ETH'' ''ethereum'')) = Some ''ethereum''"
      "''ETH'' \<noteq> []" "''ethereum'' \<noteq> []"
    and reqB: "payload_symbol (msg_payload (subscribe_request ''MATIC'' ''polygon'')) = Some ''MATIC''"
      "payload_chain (msg_payload (subscribe_request ''MATIC'' ''polygon'')) = Some ''polygon''"
      "''MATIC'' \<noteq> []" "''polygon'' \<noteq> []"
    and reqU: "payload_symbol (msg_payload (unsubscribe_request ''ETH'' ''ethereum'')) = Some ''ETH''"
      "payload_chain (msg_payload (unsubscribe_request ''ETH'' ''ethereum'')) = Some ''ethereum''"
    by (simp_all add: subscribe_request_def unsubscribe_request_def)
  have other: "''polygon'' @ '':'' @ ''MATIC'' \<noteq> ''ethereum'' @ '':'' @ ''ETH''"
      "''ethereum'' @ '':'' @ ''ETH'' \<notin> {}"
    by simp_all
  have ab: "(1::nat) \<noteq> 2" by simp
  from broadcast_delivery [OF wf regA regB ab reqA reqB reqU other opn two_subscribed_def one_unsubscribed_def,
      of 3000 example_price]
  show ?thesis
    using wf regA regB opn dead by simp
qed

section \<open>The initial price of a subscription\<close>



lemma example_fetched_price: "unified_price example_fetched = 2500"
  by (simp add: example_fetched_def unifiedData_def)





end
